theory Spec2Isabelle
  imports Main "HOL-Library.Sublist" "HOL-Library.Char_ord" "HOL-Library.List_Lexorder"
    "HOL-Library.Product_Lexorder"
begin

section \<open>Data model\<close>

text \<open>
  A cell of a data frame is a Python string or a null (pandas \<open>NaN\<close>, \<open>None\<close>, \<open>NaT\<close>):
  every value on which \<open>len\<close> raises \<open>TypeError\<close> is a null here. A row maps column names
  to cells; a column the frame does not have is \<open>None\<close> of the map, and reading it raises
  \<open>KeyError\<close>. A frame is the list of its rows, in order.
\<close>

datatype cell = Str string | NaN

type_synonym row = "string \<rightharpoonup> cell"

type_synonym frame = "row list"

datatype error = KeyError string | TypeError | ValueError

text \<open>
  The field specification of \<open>write_fw\<close>: by its docstring a dictionary from column names
  to \<open>[string length, start position, end position]\<close>. A dictionary keeps insertion order,
  so it is an association list; the three numbers are a length and two positions, hence
  naturals, and the consistency check computes over the integers as Python does (a width
  of 0 gives \<open>start - 1\<close>).
\<close>

type_synonym field_spec = "nat \<times> nat \<times> nat"

type_synonym specs = "(string \<times> field_spec) list"

text \<open>The file modes the docstring of \<open>write_fw\<close> names: \<open>'w'\<close> and \<open>'a'\<close>.\<close>

datatype f_mode = ModeW | ModeA

section \<open>The fixed-width writer\<close>

text \<open>Python's \<open>pat in s\<close> on strings: \<open>pat\<close> occurs in \<open>s\<close> as a contiguous block.\<close>

fun str_in :: "string \<Rightarrow> string \<Rightarrow> bool" where
  "str_in pat [] = (pat = [])"
| "str_in pat (c # cs) = (prefix pat (c # cs) \<or> str_in pat cs)"

text \<open>
  Lines 486 to 489 of \<open>write_fw\<close>: \<open>s[:max_len]\<close> when \<open>s\<close> is longer than the width,
  \<open>s.ljust(max_len)\<close> when it is shorter, \<open>s\<close> itself otherwise.
\<close>

definition fw_field :: "nat \<Rightarrow> string \<Rightarrow> string" where
  "fw_field max_len s =
     (if length s > max_len then take max_len s
      else if length s < max_len then s @ replicate (max_len - length s) CHR '' ''
      else s)"

text \<open>The check of line 483, \<open>(start + (max_len - 1)) != end\<close> negated, over the integers.\<close>

definition consistent :: "field_spec \<Rightarrow> bool" where
  "consistent v = (case v of (max_len, start, end) \<Rightarrow>
     int start + (int max_len - 1) = int end)"

text \<open>
  What the body of the loop over the rows can do: raise, leave \<open>write_fw\<close> with
  \<open>return 0\<close>, or go on with the line it has built.
\<close>

datatype flow = Raised error | Return0 | Line string

text \<open>
  The loop over \<open>specs.items()\<close> (lines 474 to 490), with the line built so far. For each
  field, in the order of the source: the value is read (\<open>KeyError\<close> when the row has no
  such column; a filler is a single blank and reads nothing), then the triple is checked
  (\<open>return 0\<close>), then \<open>len(s)\<close> is taken (\<open>TypeError\<close> on a null), then the value is cut
  or padded and appended.
\<close>

fun fw_line :: "row \<Rightarrow> specs \<Rightarrow> string \<Rightarrow> flow" where
  "fw_line row [] line = Line line"
| "fw_line row ((c, v) # rest) line =
     (case (if str_in ''Filler'' c then Some (Str '' '') else row c) of
        None \<Rightarrow> Raised (KeyError c)
      | Some s \<Rightarrow>
          if \<not> consistent v then Return0
          else (case s of
                  NaN \<Rightarrow> Raised TypeError
                | Str t \<Rightarrow> fw_line row rest (line @ fw_field (fst v) t)))"

text \<open>
  The loop over \<open>df.iterrows()\<close> (lines 472 to 494). The state is the text of the open file
  and the counter \<open>lw\<close>; the result is the text of the file when \<open>write_fw\<close> is left
  (a \<open>with\<close> block closes the file on a raise and on a return alike, so what was written
  stays) and either the error raised or the value returned.
\<close>

fun fw_rows :: "frame \<Rightarrow> specs \<Rightarrow> string \<Rightarrow> int \<Rightarrow> string \<times> (error + int)" where
  "fw_rows [] specs f lw = (f, Inr lw)"
| "fw_rows (row # df) specs f lw =
     (case fw_line row specs [] of
        Raised e \<Rightarrow> (f, Inl e)
      | Return0 \<Rightarrow> (f, Inr 0)
      | Line line \<Rightarrow> fw_rows df specs (f @ line @ [CHR 0x0A]) (lw + 1))"

text \<open>\<open>open(fpath, f_mode)\<close> on a file whose text is \<open>old\<close>: \<open>'w'\<close> empties it.\<close>

definition open_file :: "string \<Rightarrow> f_mode \<Rightarrow> string" where
  "open_file old m = (case m of ModeW \<Rightarrow> [] | ModeA \<Rightarrow> old)"

text \<open>
  \<open>write_fw\<close>. The first argument is the text of the file at \<open>fpath\<close> before the call
  (empty when there is none).
\<close>

definition write_fw :: "string \<Rightarrow> f_mode \<Rightarrow> frame \<Rightarrow> specs \<Rightarrow> string \<times> (error + int)" where
  "write_fw old m df specs = fw_rows df specs (open_file old m) 0"

subsection \<open>Predicates on the arguments of \<open>write_fw\<close>\<close>

text \<open>Every triple of the specification passes the check of line 483.\<close>

definition consistent_specs :: "specs \<Rightarrow> bool" where
  "consistent_specs specs = list_all (\<lambda>cv. consistent (snd cv)) specs"

text \<open>The row holds a string in column \<open>c\<close>.\<close>

definition has_str :: "row \<Rightarrow> string \<Rightarrow> bool" where
  "has_str row c = (case row c of Some (Str t) \<Rightarrow> True | _ \<Rightarrow> False)"

text \<open>
  Every field of the specification that is not a filler is a column of the row and holds
  a string there; the same for every row of a frame.
\<close>

definition field_ok :: "row \<Rightarrow> string \<times> field_spec \<Rightarrow> bool" where
  "field_ok row cv = (str_in ''Filler'' (fst cv) \<or> has_str row (fst cv))"

definition row_ok :: "specs \<Rightarrow> row \<Rightarrow> bool" where
  "row_ok specs row = list_all (field_ok row) specs"

definition rows_ok :: "frame \<Rightarrow> specs \<Rightarrow> bool" where
  "rows_ok df specs = list_all (row_ok specs) df"

text \<open>
  The value \<open>write_fw\<close> encodes for a field of a row that has it as a string, and the
  line of such a row: the encoded fields in the order of the specification.
\<close>

definition field_text :: "row \<Rightarrow> string \<Rightarrow> string" where
  "field_text row c =
     (if str_in ''Filler'' c then '' ''
      else (case row c of Some (Str t) \<Rightarrow> t | _ \<Rightarrow> []))"

definition line_of :: "row \<Rightarrow> specs \<Rightarrow> string" where
  "line_of row specs =
     concat (map (\<lambda>cv. fw_field (fst (snd cv)) (field_text row (fst cv))) specs)"

text \<open>The text of a file made of the given lines, each followed by its newline.\<close>

definition file_lines :: "string list \<Rightarrow> string" where
  "file_lines ls = concat (map (\<lambda>l. l @ [CHR 0x0A]) ls)"



text \<open>The widths of a specification, and its largest end position.\<close>

definition widths :: "specs \<Rightarrow> nat list" where
  "widths specs = map (\<lambda>cv. fst (snd cv)) specs"

definition max_end :: "specs \<Rightarrow> nat" where
  "max_end specs = fold max (map (\<lambda>cv. snd (snd (snd cv))) specs) 0"

section \<open>Header, data and trailer records\<close>


definition dv_col_def :: specs where
  "dv_col_def = [
     (''Record Type'', 3, 1, 3),
     (''Student SSN'', 9, 4, 12),
     (''First Name'', 40, 13, 52),
     (''Middle Name'', 40, 53, 92),
     (''Last Name'', 40, 93, 132),
     (''Name Suffix'', 5, 133, 137),
     (''Previous Last Name'', 40, 138, 177),
     (''Previous First Name'', 40, 178, 217),
     (''Date of Birth'', 8, 218, 225),
     (''College Student ID'', 20, 226, 245),
     (''Filler1'', 59, 246, 304),
     (''Degree Level Indicator'', 1, 305, 305),
     (''Degree, Certificate, or Credential Title'', 80, 306, 385),
     (''School/College/Division Awarding Degree'', 50, 386, 435),
     (''Joint Institution/College/School/Division Name'', 60, 436, 495),
     (''Date Degree, Credential, or Certificate Awarded'', 8, 496, 503),
     (''Filler02'', 80, 504, 583),
     (''Major Course of Study 1'', 80, 584, 663),
     (''Major Course of Study 2'', 80, 664, 743),
     (''Major Course of Study 3'', 80, 744, 823),
     (''Major Course of Study 4'', 80, 824, 903),
     (''Filler03'', 160, 904, 1063),
     (''Minor Course of Study 1'', 80, 1064, 1143),
     (''Minor Course of Study 2'', 80, 1144, 1223),
     (''Minor Course of Study 3'', 80, 1224, 1303),
     (''Minor Course of Study 4'', 80, 1304, 1383),
     (''Filler04'', 160, 1384, 1543),
     (''Major Option 1'', 80, 1544, 1623),
     (''Major Option 2'', 80, 1624, 1703),
     (''Filler05'', 160, 1704, 1863),
     (''Major Concentration 1'', 80, 1864, 1943),
     (''Major Concentration 2'', 80, 1944, 2023),
     (''Major Concentration 3'', 80, 2024, 2103),
     (''Filler06'', 280, 2104, 2383),
     (''NCES CIP Code for Major 1'', 6, 2384, 2389),
     (''NCES CIP Code for Major 2'', 6, 2390, 2395),
     (''NCES CIP Code for Major 3'', 6, 2396, 2401),
     (''NCES CIP Code for Major 4'', 6, 2402, 2407),
     (''Filler07'', 20, 2408, 2427),
     (''NCES CIP Code for Minor 1'', 6, 2428, 2433),
     (''NCES CIP Code for Minor 2'', 6, 2434, 2439),
     (''NCES CIP Code for Minor 3'', 6, 2440, 2445),
     (''NCES CIP Code for Minor 4'', 6, 2446, 2451),
     (''Filler08'', 120, 2452, 2571),
     (''Academic Honors'', 50, 2572, 2621),
     (''Filler09'', 196, 2622, 2817),
     (''Honors Program'', 50, 2818, 2867),
     (''Filler10'', 100, 2868, 2967),
     (''Other Honors'', 150, 2968, 3117),
     (''Attendance From Date'', 8, 3118, 3125),
     (''Attendance To Date'', 8, 3126, 3133),
     (''FERPA Block'', 1, 3134, 3134),
     (''School Financial Block'', 1, 3135, 3135),
     (''Filler11'', 100, 3136, 3235),
     (''Name of Institution Granting Degree'', 50, 3236, 3285),
     (''Reverse Transfer Flag'', 1, 3286, 3286),
     (''Certificate Type'', 1, 3287, 3287),
     (''Filler12'', 553, 3288, 3840)]"

definition dv_tlr_def :: specs where
  "dv_tlr_def = [
     (''Record Type'', 3, 1, 3),
     (''Total Record Count'', 10, 4, 13),
     (''Filler01'', 3827, 14, 3840)]"

text \<open>Python's \<open>str\<close> on an integer: the decimal digits, after a minus sign when negative.\<close>

function str_nat :: "nat \<Rightarrow> string" where
  "str_nat n =
     (if n < 10 then [''0123456789'' ! n]
      else str_nat (n div 10) @ [''0123456789'' ! (n mod 10)])"
  by pat_completeness auto
termination
  by (relation "measure (\<lambda>n. n)") auto

declare str_nat.simps [simp del]

definition py_str :: "int \<Rightarrow> string" where
  "py_str i = (if i < 0 then CHR ''-'' # str_nat (nat (- i)) else str_nat (nat i))"



definition trailer_data :: "int \<Rightarrow> frame" where
  "trailer_data total_record_count = [map_of [
     (''Record Type'', Str ''DT1''),
     (''Total Record Count'', Str (py_str total_record_count)),
     (''Filler01'', Str '' '')]]"






section \<open>The assembled frame\<close>

text \<open>
  Frame operations of pandas, row by row. A frame has a column when each of its rows has
  it (the rows of a pandas frame share their columns; a frame without rows is taken to
  have every column), and reading a column the frame lacks raises \<open>KeyError\<close>.
\<close>

definition has_col :: "string \<Rightarrow> frame \<Rightarrow> bool" where
  "has_col c df = list_all (\<lambda>row. row c \<noteq> None) df"

text \<open>\<open>df[c] = v\<close> for a string \<open>v\<close>, on one row and on the frame.\<close>

definition set_col_row :: "string \<Rightarrow> string \<Rightarrow> row \<Rightarrow> row" where
  "set_col_row c v row = row(c \<mapsto> Str v)"

definition set_col :: "string \<Rightarrow> string \<Rightarrow> frame \<Rightarrow> error + frame" where
  "set_col c v df = Inr (map (set_col_row c v) df)"

text \<open>
  The row-wise part of \<open>df.loc[mask, c] = v\<close>: the rows of the mask get \<open>v\<close>; the others
  keep what they have, and get a null when the column is new.
\<close>

definition loc_row :: "bool \<Rightarrow> string \<Rightarrow> string \<Rightarrow> row \<Rightarrow> row" where
  "loc_row sel c v row =
     (if sel then row(c \<mapsto> Str v)
      else (case row c of None \<Rightarrow> row(c \<mapsto> NaN) | Some x \<Rightarrow> row))"

text \<open>\<open>isin\<close>, \<open>isna\<close> and \<open>str.startswith\<close> on the cell of a row; a null is in no list.\<close>

definition isin :: "string \<Rightarrow> string list \<Rightarrow> row \<Rightarrow> bool" where
  "isin c vals row = (case row c of Some (Str s) \<Rightarrow> s \<in> set vals | _ \<Rightarrow> False)"

definition isna :: "string \<Rightarrow> row \<Rightarrow> bool" where
  "isna c row = (case row c of Some (Str s) \<Rightarrow> False | _ \<Rightarrow> True)"

definition startswith :: "string \<Rightarrow> string \<Rightarrow> row \<Rightarrow> bool" where
  "startswith c pre row = (case row c of Some (Str s) \<Rightarrow> prefix pre s | _ \<Rightarrow> False)"

text \<open>
  \<open>df.loc[df[src].isin(vals), c] = v\<close>, on one row and on the frame. On a frame without
  rows pandas cannot set a new column from a scalar through \<open>loc\<close> and raises
  \<open>ValueError\<close>. The rows of such a frame cannot tell whether \<open>c\<close> is new; the model takes
  it to be new, as it is at line 341, the first statement of this form \<open>create_DV_df\<close>
  reaches, whose raise ends the function before any other runs on a frame without rows.
\<close>

definition loc_isin_row :: "string \<Rightarrow> string list \<Rightarrow> string \<Rightarrow> string \<Rightarrow> row \<Rightarrow> row" where
  "loc_isin_row src vals c v row = loc_row (isin src vals row) c v row"

definition loc_isin :: "string \<Rightarrow> string list \<Rightarrow> string \<Rightarrow> string \<Rightarrow> frame \<Rightarrow> error + frame" where
  "loc_isin src vals c v df =
     (if \<not> has_col src df then Inl (KeyError src)
      else if df = [] then Inl ValueError
      else Inr (map (loc_isin_row src vals c v) df))"

text \<open>\<open>df.loc[df[c].str.startswith(pre), c] = v\<close> and \<open>df.loc[df[c].isna(), c] = v\<close>.\<close>

definition loc_startswith_row :: "string \<Rightarrow> string \<Rightarrow> string \<Rightarrow> row \<Rightarrow> row" where
  "loc_startswith_row c pre v row = loc_row (startswith c pre row) c v row"

definition loc_isna_row :: "string \<Rightarrow> string \<Rightarrow> row \<Rightarrow> row" where
  "loc_isna_row c v row = loc_row (isna c row) c v row"

definition loc_startswith :: "string \<Rightarrow> string \<Rightarrow> string \<Rightarrow> frame \<Rightarrow> error + frame" where
  "loc_startswith c pre v df =
     (if has_col c df then Inr (map (loc_startswith_row c pre v) df)
      else Inl (KeyError c))"

definition loc_isna :: "string \<Rightarrow> string \<Rightarrow> frame \<Rightarrow> error + frame" where
  "loc_isna c v df =
     (if has_col c df then Inr (map (loc_isna_row c v) df)
      else Inl (KeyError c))"

text \<open>\<open>df.rename(columns=...)\<close>: a name the frame lacks is passed over.\<close>

definition rename_col :: "string \<times> string \<Rightarrow> row \<Rightarrow> row" where
  "rename_col p row =
     (case row (fst p) of None \<Rightarrow> row | Some x \<Rightarrow> (row(fst p := None))(snd p \<mapsto> x))"

definition rename :: "(string \<times> string) list \<Rightarrow> frame \<Rightarrow> error + frame" where
  "rename columns df = Inr (map (fold rename_col columns) df)"

text \<open>The loop of line 418: \<open>if f not in df.columns: df[f] = ' '\<close>.\<close>

definition add_col :: "string \<Rightarrow> row \<Rightarrow> row" where
  "add_col f row = (case row f of None \<Rightarrow> row(f \<mapsto> Str '' '') | Some x \<Rightarrow> row)"

definition add_unused :: "string list \<Rightarrow> frame \<Rightarrow> error + frame" where
  "add_unused fs df = Inr (map (fold add_col fs) df)"

text \<open>\<open>df[cols] = df[cols].fillna(' ')\<close>: every column of the list must be there.\<close>

definition fillna_col :: "string \<Rightarrow> row \<Rightarrow> row" where
  "fillna_col c row = (case row c of Some NaN \<Rightarrow> row(c \<mapsto> Str '' '') | _ \<Rightarrow> row)"

definition fillna :: "string list \<Rightarrow> frame \<Rightarrow> error + frame" where
  "fillna cols df =
     (case filter (\<lambda>c. \<not> has_col c df) cols of
        [] \<Rightarrow> Inr (map (fold fillna_col cols) df)
      | c # cs \<Rightarrow> Inl (KeyError c))"

text \<open>\<open>df = df.loc[~(df[c].isna()), :]\<close>.\<close>

definition drop_isna :: "string \<Rightarrow> frame \<Rightarrow> error + frame" where
  "drop_isna c df =
     (if has_col c df then Inr (filter (\<lambda>row. \<not> isna c row) df) else Inl (KeyError c))"

text \<open>
  \<open>df.sort_values([c1, c2])\<close>: ascending by the first column, then by the second, nulls
  last, rows with equal keys in their former order (the sort on several columns is a
  stable one). Strings compare character by character by code point.
\<close>

definition sort_cell :: "cell option \<Rightarrow> bool \<times> string" where
  "sort_cell x = (case x of Some (Str s) \<Rightarrow> (False, s) | _ \<Rightarrow> (True, []))"

definition sort_rows :: "string \<Rightarrow> string \<Rightarrow> frame \<Rightarrow> frame" where
  "sort_rows c1 c2 df = sort_key (\<lambda>row. (sort_cell (row c1), sort_cell (row c2))) df"

definition sort_values :: "string \<Rightarrow> string \<Rightarrow> frame \<Rightarrow> error + frame" where
  "sort_values c1 c2 df =
     (if \<not> has_col c1 df then Inl (KeyError c1)
      else if \<not> has_col c2 df then Inl (KeyError c2)
      else Inr (sort_rows c1 c2 df))"

text \<open>Statements in sequence: the first raise ends the run.\<close>

fun steps :: "(frame \<Rightarrow> error + frame) list \<Rightarrow> frame \<Rightarrow> error + frame" where
  "steps [] df = Inr df"
| "steps (s # ss) df = (case s df of Inl e \<Rightarrow> Inl e | Inr df' \<Rightarrow> steps ss df')"

text \<open>The tables of lines 360, 377 and 422.\<close>

definition rename_columns :: "(string \<times> string) list" where
  "rename_columns = [
     (''GOVERNMENT_ID'', ''Student SSN''),
     (''FIRST_NAME'', ''First Name''),
     (''MIDDLE_NAME'', ''Middle Name''),
     (''LAST_NAME'', ''Last Name''),
     (''SUFFIX'', ''Name Suffix''),
     (''BIRTH_DATE'', ''Date of Birth''),
     (''PEOPLE_CODE_ID'', ''College Student ID''),
     (''GRADUATION_DATE'', ''Date Degree, Credential, or Certificate Awarded''),
     (''LONG_DESC'', ''Degree, Certificate, or Credential Title''),
     (''FORMAL_TITLE'', ''Major Course of Study 1''),
     (''START_DATE'', ''Attendance From Date''),
     (''END_DATE'', ''Attendance To Date''),
     (''CipCode'', ''NCES CIP Code for Major 1'')]"

definition unused_fields :: "string list" where
  "unused_fields = [
     ''School/College/Division Awarding Degree'',
     ''Joint Institution/College/School/Division Name'',
     ''Major Course of Study 2'',
     ''Major Course of Study 3'',
     ''Major Course of Study 4'',
     ''Minor Course of Study 1'',
     ''Minor Course of Study 2'',
     ''Minor Course of Study 3'',
     ''Minor Course of Study 4'',
     ''Major Option 1'',
     ''Major Option 2'',
     ''Major Concentration 1'',
     ''Major Concentration 2'',
     ''Major Concentration 3'',
     ''NCES CIP Code for Major 1'',
     ''NCES CIP Code for Major 2'',
     ''NCES CIP Code for Major 3'',
     ''NCES CIP Code for Major 4'',
     ''NCES CIP Code for Minor 1'',
     ''NCES CIP Code for Minor 2'',
     ''NCES CIP Code for Minor 3'',
     ''NCES CIP Code for Minor 4'',
     ''Honors Program'',
     ''Other Honors'',
     ''Name of Institution Granting Degree'',
     ''Reverse Transfer Flag'',
     ''Certificate Type'',
     ''Filler01'',
     ''Filler02'',
     ''Filler03'',
     ''Filler04'',
     ''Filler05'',
     ''Filler06'',
     ''Filler07'',
     ''Filler08'',
     ''Filler09'',
     ''Filler10'',
     ''Filler11'',
     ''Filler12'']"

definition fill_list :: "string list" where
  "fill_list = [
     ''Minor Course of Study 1'',
     ''Minor Course of Study 2'',
     ''Minor Course of Study 3'',
     ''Minor Course of Study 4'',
     ''Academic Honors'',
     ''Certificate Type'',
     ''NCES CIP Code for Major 1'',
     ''Attendance From Date'',
     ''Attendance To Date'']"

text \<open>
  \<open>create_DV_df\<close> from line 339 on. The argument is the frame the merges of lines 300 to
  337 give: one row for each degree that is not a minor, with the columns of the readers.
\<close>

definition create_DV_df :: "frame \<Rightarrow> error + frame" where
  "create_DV_df df = steps [
     set_col ''Record Type'' ''DD1'',
     loc_isin ''DEGREE'' [''BS'', ''BA'', ''BPS''] ''Degree Level Indicator'' ''B'',
     loc_isin ''DEGREE'' [''AS'', ''AAS'', ''AA'', ''AOS''] ''Degree Level Indicator'' ''A'',
     loc_isin ''DEGREE'' [''MS'', ''MPS''] ''Degree Level Indicator'' ''M'',
     loc_isin ''DEGREE'' [''CERTIF''] ''Degree Level Indicator'' ''C'',
     loc_isin ''DEGREE'' [''GCERT''] ''Degree Level Indicator'' ''T'',
     loc_isin ''HONORS'' [''CUM''] ''Academic Honors'' ''Cum Laude'',
     loc_isin ''HONORS'' [''MAGNA''] ''Academic Honors'' ''Magna Cum Laude'',
     loc_isin ''HONORS'' [''SUMMA''] ''Academic Honors'' ''Summa Cum Laude'',
     loc_isin ''DEGREE'' [''CERTIF''] ''Certificate Type'' ''2'',
     set_col ''FERPA Block'' ''N'',
     loc_isin ''RELEASE_INFO'' [''NORL''] ''FERPA Block'' ''Y'',
     set_col ''School Financial Block'' ''N'',
     loc_isin ''STOP_REASON'' [''BURS'', ''COLL'', ''STAC''] ''School Financial Block'' ''Y'',
     rename rename_columns,
     add_unused unused_fields,
     fillna fill_list,
     drop_isna ''Student SSN'',
     loc_startswith ''Student SSN'' ''000'' ''NO SSN'',
     loc_startswith ''Student SSN'' ''888'' ''NO SSN'',
     loc_startswith ''Student SSN'' ''999'' ''NO SSN'',
     loc_isna ''First Name'' ''NFN'',
     sort_values ''Student SSN'' ''Date Degree, Credential, or Certificate Awarded''] df"

text \<open>
  The same statements on one row: lines 339 to 433, which derive and fill the columns, and
  lines 439 to 444, which label the SSN and the first name. Between the two, line 436
  drops the rows without an SSN; line 446 sorts what is left.
\<close>

definition derive_row :: "row \<Rightarrow> row" where
  "derive_row row = fold (\<lambda>f r. f r) [
     set_col_row ''Record Type'' ''DD1'',
     loc_isin_row ''DEGREE'' [''BS'', ''BA'', ''BPS''] ''Degree Level Indicator'' ''B'',
     loc_isin_row ''DEGREE'' [''AS'', ''AAS'', ''AA'', ''AOS''] ''Degree Level Indicator'' ''A'',
     loc_isin_row ''DEGREE'' [''MS'', ''MPS''] ''Degree Level Indicator'' ''M'',
     loc_isin_row ''DEGREE'' [''CERTIF''] ''Degree Level Indicator'' ''C'',
     loc_isin_row ''DEGREE'' [''GCERT''] ''Degree Level Indicator'' ''T'',
     loc_isin_row ''HONORS'' [''CUM''] ''Academic Honors'' ''Cum Laude'',
     loc_isin_row ''HONORS'' [''MAGNA''] ''Academic Honors'' ''Magna Cum Laude'',
     loc_isin_row ''HONORS'' [''SUMMA''] ''Academic Honors'' ''Summa Cum Laude'',
     loc_isin_row ''DEGREE'' [''CERTIF''] ''Certificate Type'' ''2'',
     set_col_row ''FERPA Block'' ''N'',
     loc_isin_row ''RELEASE_INFO'' [''NORL''] ''FERPA Block'' ''Y'',
     set_col_row ''School Financial Block'' ''N'',
     loc_isin_row ''STOP_REASON'' [''BURS'', ''COLL'', ''STAC''] ''School Financial Block'' ''Y'',
     fold rename_col rename_columns,
     fold add_col unused_fields,
     fold fillna_col fill_list] row"

definition label_row :: "row \<Rightarrow> row" where
  "label_row row = fold (\<lambda>f r. f r) [
     loc_startswith_row ''Student SSN'' ''000'' ''NO SSN'',
     loc_startswith_row ''Student SSN'' ''888'' ''NO SSN'',
     loc_startswith_row ''Student SSN'' ''999'' ''NO SSN'',
     loc_isna_row ''First Name'' ''NFN''] row"

text \<open>The columns the statements read from the merged frame.\<close>

definition merged_cols :: "string list" where
  "merged_cols = [''DEGREE'', ''HONORS'', ''RELEASE_INFO'', ''STOP_REASON'', ''GOVERNMENT_ID'',
     ''FIRST_NAME'', ''GRADUATION_DATE'', ''START_DATE'', ''END_DATE'']"

text \<open>
  A row of the merged frame, with the columns of the readers: a student, a degree code, the
  government ID and the honors code; the other columns hold fixed values. A frame of such
  rows has no minor columns and no \<open>Degree Level Indicator\<close> column yet.
\<close>

definition merged_row :: "string \<Rightarrow> string \<Rightarrow> cell \<Rightarrow> cell \<Rightarrow> row" where
  "merged_row pid degree ssn honors = map_of [
     (''PEOPLE_CODE_ID'', Str pid),
     (''DEGREE'', Str degree),
     (''CURRICULUM'', Str ''FORS''),
     (''FORMAL_TITLE'', Str ''Forestry''),
     (''GRADUATION_DATE'', Str ''20220514''),
     (''START_DATE'', Str ''20180827''),
     (''END_DATE'', Str ''20220513''),
     (''GOVERNMENT_ID'', ssn),
     (''FIRST_NAME'', Str ''Ann''),
     (''MIDDLE_NAME'', Str '' ''),
     (''LAST_NAME'', Str ''Lee''),
     (''SUFFIX'', Str '' ''),
     (''BIRTH_DATE'', Str ''20000101''),
     (''RELEASE_INFO'', NaN),
     (''Previous First Name'', Str '' ''),
     (''Previous Last Name'', Str '' ''),
     (''HONORS'', honors),
     (''Degree'', NaN),
     (''Curriculum'', NaN),
     (''CipCode'', NaN),
     (''CODE_VALUE_KEY'', Str degree),
     (''LONG_DESC'', Str ''Degree''),
     (''STOP_REASON'', NaN)]"

section \<open>The minors\<close>














section \<open>Properties of the fixed-width writer\<close>

subsection \<open>One row\<close>

lemma length_fw_field: "length (fw_field w s) = w"
  by (simp add: fw_field_def)

lemma fw_line_Line:
  "fw_line row specs line = Line l \<Longrightarrow>
     consistent_specs specs \<and> row_ok specs row \<and> l = line @ line_of row specs"
proof (induction specs arbitrary: line)
  case Nil
  then show ?case by (simp add: consistent_specs_def row_ok_def line_of_def)
next
  case (Cons cv specs)
  obtain c v where cv: "cv = (c, v)" by (cases cv)
  show ?case
  proof (cases "str_in ''Filler'' c")
    case True
    with Cons.prems cv have cons: "consistent v"
      and rest: "fw_line row specs (line @ fw_field (fst v) '' '') = Line l"
      by (auto split: if_splits)
    from Cons.IH [OF rest] cons True cv show ?thesis
      by (simp add: consistent_specs_def row_ok_def line_of_def field_ok_def field_text_def)
  next
    case False
    with Cons.prems cv obtain t where t: "row c = Some (Str t)" and cons: "consistent v"
      and rest: "fw_line row specs (line @ fw_field (fst v) t) = Line l"
      by (auto split: option.splits if_splits cell.splits)
    from Cons.IH [OF rest] cons False cv t show ?thesis
      by (simp add: consistent_specs_def row_ok_def line_of_def field_ok_def field_text_def has_str_def)
  qed
qed

lemma fw_line_ok:
  "consistent_specs specs \<Longrightarrow> row_ok specs row \<Longrightarrow>
     fw_line row specs line = Line (line @ line_of row specs)"
proof (induction specs arbitrary: line)
  case Nil
  then show ?case by (simp add: line_of_def)
next
  case (Cons cv specs)
  obtain c v where cv: "cv = (c, v)" by (cases cv)
  from Cons.prems cv have cons: "consistent v" and cs: "consistent_specs specs"
    and ok: "field_ok row (c, v)" and oks: "row_ok specs row"
    by (simp_all add: consistent_specs_def row_ok_def)
  show ?case
  proof (cases "str_in ''Filler'' c")
    case True
    with Cons.IH [OF cs oks] cons cv show ?thesis
      by (simp add: line_of_def field_text_def)
  next
    case False
    with ok obtain t where t: "row c = Some (Str t)"
      by (auto simp: field_ok_def has_str_def split: option.splits cell.splits)
    with Cons.IH [OF cs oks] cons cv False show ?thesis
      by (simp add: line_of_def field_text_def)
  qed
qed



lemma fw_line_bad_row:
  "consistent_specs specs \<Longrightarrow> \<not> row_ok specs row \<Longrightarrow> \<exists>e. fw_line row specs line = Raised e"
proof (induction specs arbitrary: line)
  case Nil
  then show ?case by (simp add: row_ok_def)
next
  case (Cons cv specs)
  obtain c v where cv: "cv = (c, v)" by (cases cv)
  from Cons.prems cv have cons: "consistent v" and cs: "consistent_specs specs"
    by (simp_all add: consistent_specs_def)
  show ?case
  proof (cases "field_ok row (c, v)")
    case True
    with Cons.prems cv have "\<not> row_ok specs row" by (simp add: row_ok_def)
    from Cons.IH [OF cs this] True cons cv show ?thesis
      by (auto simp: field_ok_def has_str_def split: option.splits cell.splits)
  next
    case False
    with cons cv show ?thesis
      by (auto simp: field_ok_def has_str_def split: option.splits cell.splits)
  qed
qed

lemma fw_rows_Inr:
  "fw_rows df specs f lw = (f', Inr n) \<Longrightarrow> consistent_specs specs \<or> n \<noteq> 0 \<Longrightarrow> 0 \<le> lw \<Longrightarrow>
     rows_ok df specs \<and> n = lw + int (length df) \<and>
     f' = f @ file_lines (map (\<lambda>row. line_of row specs) df)"
proof (induction df arbitrary: f lw)
  case Nil
  then show ?case by (simp add: rows_ok_def file_lines_def)
next
  case (Cons row df)
  show ?case
  proof (cases "fw_line row specs []")
    case (Raised e)
    with Cons.prems show ?thesis by simp
  next
    case Return0
    with Cons.prems have "n = 0" by simp
    with Cons.prems(2) have "consistent_specs specs" by simp
    moreover from Return0 Cons.prems(1) have "fw_line row specs [] = Return0" by simp
    ultimately show ?thesis
      using fw_line_bad_row [of specs row "[]"] fw_line_ok [of specs row "[]"]
      by (cases "row_ok specs row") auto
  next
    case (Line l)
    from fw_line_Line [OF Line] have ok: "row_ok specs row" and l: "l = line_of row specs"
      by simp_all
    from Line Cons.prems(1) have rest: "fw_rows df specs (f @ l @ [CHR 0x0A]) (lw + 1) = (f', Inr n)"
      by simp
    from Cons.prems(3) have "0 \<le> lw + 1" by simp
    from Cons.IH [OF rest Cons.prems(2) this] ok l show ?thesis
      by (simp add: rows_ok_def file_lines_def)
  qed
qed




subsection \<open>The line and the file\<close>

lemma length_line_of: "length (line_of row specs) = sum_list (widths specs)"
  by (induction specs) (simp_all add: line_of_def widths_def length_fw_field)

lemma line_of_Cons:
  "line_of row (cv # specs) = fw_field (fst (snd cv)) (field_text row (fst cv)) @ line_of row specs"
  by (simp add: line_of_def)

lemma line_of_field:
  "i < length specs \<Longrightarrow>
     take (fst (snd (specs ! i))) (drop (sum_list (take i (widths specs))) (line_of row specs)) =
     fw_field (fst (snd (specs ! i))) (field_text row (fst (specs ! i)))"
proof (induction specs arbitrary: i)
  case Nil
  then show ?case by simp
next
  case (Cons cv specs)
  show ?case
  proof (cases i)
    case 0
    then show ?thesis by (simp add: line_of_Cons length_fw_field widths_def)
  next
    case (Suc j)
    with Cons.prems have "j < length specs" by simp
    from Cons.IH [OF this] Suc show ?thesis
      by (simp add: line_of_Cons length_fw_field widths_def)
  qed
qed

lemma write_fw_Inr:
  assumes "write_fw old m df specs = (f, Inr n)" and "consistent_specs specs \<or> n \<noteq> 0"
  shows "rows_ok df specs" and "n = int (length df)"
    and "f = open_file old m @ file_lines (map (\<lambda>row. line_of row specs) df)"
  using fw_rows_Inr [of df specs "open_file old m" 0 f n] assms
  by (simp_all add: write_fw_def)


lemma file_lines_Cons: "file_lines (l # ls) = l @ CHR 0x0A # file_lines ls"
  by (simp add: file_lines_def)

lemma drop_file_lines:
  "list_all (\<lambda>l. length l = L) ls \<Longrightarrow> j \<le> length ls \<Longrightarrow>
     drop (j * (L + 1)) (file_lines ls) = file_lines (drop j ls)"
proof (induction ls arbitrary: j)
  case Nil
  then show ?case by (simp add: file_lines_def)
next
  case (Cons l ls)
  show ?case
  proof (cases j)
    case 0
    then show ?thesis by simp
  next
    case (Suc i)
    with Cons.prems have "i \<le> length ls" and "length l = L" and "list_all (\<lambda>l. length l = L) ls"
      by simp_all
    with Cons.IH [of i] Suc show ?thesis
      by (simp add: file_lines_Cons)
  qed
qed

lemma sum_take_Suc_le:
  "i < length (ws :: nat list) \<Longrightarrow> sum_list (take i ws) + ws ! i \<le> sum_list ws"
proof (induction ws arbitrary: i)
  case Nil
  then show ?case by simp
next
  case (Cons w ws)
  then show ?case by (cases i) auto
qed

lemma file_slot:
  assumes "list_all (\<lambda>l. length l = L) ls" and "j < length ls" and "k + w \<le> L"
  shows "take w (drop (j * (L + 1) + k) (file_lines ls)) = take w (drop k (ls ! j))"
proof -
  from assms(2) obtain l rest where d: "drop j ls = l # rest" and l: "l = ls ! j"
    by (metis Cons_nth_drop_Suc)
  from assms(1,2) l have len: "length l = L"
    by (simp add: list_all_iff)
  have "drop (j * (L + 1) + k) (file_lines ls) = drop k (drop (j * (L + 1)) (file_lines ls))"
    by (simp add: add.commute)
  also have "\<dots> = drop k (file_lines (drop j ls))"
    using drop_file_lines [OF assms(1), of j] assms(2) by simp
  also have "\<dots> = drop k l @ CHR 0x0A # file_lines rest"
    using d len assms(3) by (simp add: file_lines_Cons)
  finally show ?thesis using len assms(3) l by simp
qed


subsection \<open>An inconsistent specification\<close>








section \<open>Claims about the fixed-width writer\<close>

text \<open>
  Claim C1. When the specification is consistent and its widths sum to its largest end
  position, every row \<open>write_fw\<close> writes becomes a line whose length, before the newline,
  is that end position, whatever the lengths of the row's values. A call that returns has
  written every row of the frame: the file is the opened file followed by the lines of the
  rows, each with its newline, and the value returned is their number.
\<close>
theorem write_fw_line_length:
  assumes "consistent_specs specs"
    and "sum_list (widths specs) = max_end specs"
    and "write_fw old m df specs = (f, Inr n)"
  shows "f = open_file old m @ file_lines (map (\<lambda>row. line_of row specs) df) \<and>
         n = int (length df) \<and>
         list_all (\<lambda>row. fw_line row specs [] = Line (line_of row specs) \<and>
                          length (line_of row specs) = max_end specs) df"
proof -
  from write_fw_Inr [OF assms(3)] assms(1)
  have ok: "rows_ok df specs" and n: "n = int (length df)"
    and f: "f = open_file old m @ file_lines (map (\<lambda>row. line_of row specs) df)"
    by simp_all
  have "fw_line row specs [] = Line (line_of row specs)" if "row \<in> set df" for row
    using that ok fw_line_ok [OF assms(1), of row "[]"]
    by (simp add: rows_ok_def list_all_iff)
  with f n assms(2) show ?thesis
    by (simp add: list_all_iff length_line_of)
qed

theorem write_fw_line_length_witness:
  "consistent_specs dv_tlr_def \<and> sum_list (widths dv_tlr_def) = max_end dv_tlr_def \<and>
   max_end dv_tlr_def = 3840 \<and>
   write_fw [] ModeA (trailer_data 9) dv_tlr_def =
     (''DT19'' @ replicate 9 CHR '' '' @ CHR '' '' # replicate 3826 CHR '' '' @ [CHR 0x0A], Inr 1) \<and>
   length (line_of (hd (trailer_data 9)) dv_tlr_def) = 3840"
proof -
  have c: "consistent_specs dv_tlr_def"
    by (simp add: consistent_specs_def dv_tlr_def_def consistent_def)
  have s: "sum_list (widths dv_tlr_def) = max_end dv_tlr_def"
    by (simp add: widths_def max_end_def dv_tlr_def_def)
  have m: "max_end dv_tlr_def = 3840"
    by (simp add: max_end_def dv_tlr_def_def)
  have w: "write_fw [] ModeA (trailer_data 9) dv_tlr_def =
     (''DT19'' @ replicate 9 CHR '' '' @ CHR '' '' # replicate 3826 CHR '' '' @ [CHR 0x0A], Inr 1)"
    by (simp add: write_fw_def open_file_def trailer_data_def dv_tlr_def_def
        consistent_def fw_field_def py_str_def str_nat.simps)
  from write_fw_line_length [OF c s w] m
  have "length (line_of (hd (trailer_data 9)) dv_tlr_def) = 3840"
    by (simp add: trailer_data_def)
  with c s m w show ?thesis by simp
qed

text \<open>
  Claim C2. \<open>write_fw\<close> has returned with a consistent specification, so it has written
  every row; each line has the sum of the widths as its length and a newline after it. In
  the text of the file, the field at index \<open>i\<close> of the row at index \<open>j\<close> starts after the
  text the file was opened with, \<open>j\<close> lines and the widths of the fields before it. When
  the field is not a filler and the row holds the string \<open>t\<close> there, its \<open>w\<close> characters are
  the first \<open>w\<close> of \<open>t\<close> when \<open>t\<close> is longer, \<open>t\<close> followed by blanks when shorter, and
  \<open>t\<close> itself when the lengths agree.
\<close>
theorem write_fw_field_encoding:
  assumes "write_fw old m df specs = (f, Inr n)" and "consistent_specs specs"
    and "j < length df" and "i < length specs" and "specs ! i = (c, w, start, end)"
    and "\<not> str_in ''Filler'' c" and "(df ! j) c = Some (Str t)"
  shows "take w (drop (length (open_file old m) + j * (sum_list (widths specs) + 1) +
                       sum_list (take i (widths specs))) f) =
           (if length t > w then take w t
            else if length t < w then t @ replicate (w - length t) CHR '' ''
            else t) \<and>
         length (take w (drop (length (open_file old m) + j * (sum_list (widths specs) + 1) +
                       sum_list (take i (widths specs))) f)) = w \<and>
         n = int (length df)"
proof -
  let ?ls = "map (\<lambda>row. line_of row specs) df"
  let ?L = "sum_list (widths specs)"
  let ?k = "sum_list (take i (widths specs))"
  from write_fw_Inr [OF assms(1)] assms(2)
  have n: "n = int (length df)" and f: "f = open_file old m @ file_lines ?ls"
    by simp_all
  have all: "list_all (\<lambda>l. length l = ?L) ?ls"
    by (simp add: list_all_iff length_line_of)
  from assms(4,5) have w: "widths specs ! i = w" by (simp add: widths_def)
  from assms(4) have "i < length (widths specs)" by (simp add: widths_def)
  from sum_take_Suc_le [OF this] w have fit: "?k + w \<le> ?L" by simp
  from assms(3) have j: "j < length ?ls" by simp
  have "take w (drop (length (open_file old m) + j * (?L + 1) + ?k) f) =
        take w (drop (j * (?L + 1) + ?k) (file_lines ?ls))"
    by (simp add: f add.assoc)
  also have "\<dots> = take w (drop ?k (?ls ! j))"
    by (rule file_slot [OF all j fit])
  also have "\<dots> = take w (drop ?k (line_of (df ! j) specs))"
    using assms(3) by simp
  also have "\<dots> = fw_field w (field_text (df ! j) c)"
    using line_of_field [OF assms(4), of "df ! j"] assms(5) by simp
  also have "field_text (df ! j) c = t"
    using assms(6,7) by (simp add: field_text_def)
  finally have "take w (drop (length (open_file old m) + j * (?L + 1) + ?k) f) = fw_field w t" .
  with n show ?thesis by (simp add: fw_field_def)
qed

theorem write_fw_field_encoding_witness:
  "write_fw ''DH1'' ModeA (trailer_data 9 @ trailer_data 12345678901) dv_tlr_def =
     (''DH1'' @ ''DT19'' @ replicate 9 CHR '' '' @ CHR '' '' # replicate 3826 CHR '' '' @ [CHR 0x0A] @
      ''DT11234567890'' @ CHR '' '' # replicate 3826 CHR '' '' @ [CHR 0x0A], Inr 2) \<and>
   consistent_specs dv_tlr_def \<and>
   (1::nat) < length (trailer_data 9 @ trailer_data 12345678901) \<and>
   (1::nat) < length dv_tlr_def \<and> dv_tlr_def ! 1 = (''Total Record Count'', 10, 4, 13) \<and>
   \<not> str_in ''Filler'' ''Total Record Count'' \<and>
   ((trailer_data 9 @ trailer_data 12345678901) ! 1) ''Total Record Count'' =
     Some (Str ''12345678901'') \<and>
   take 10 (drop (length (open_file ''DH1'' ModeA) + 1 * (sum_list (widths dv_tlr_def) + 1) +
                  sum_list (take 1 (widths dv_tlr_def)))
     (''DH1'' @ ''DT19'' @ replicate 9 CHR '' '' @ CHR '' '' # replicate 3826 CHR '' '' @ [CHR 0x0A] @
      ''DT11234567890'' @ CHR '' '' # replicate 3826 CHR '' '' @ [CHR 0x0A])) = ''1234567890''"
proof -
  have w: "write_fw ''DH1'' ModeA (trailer_data 9 @ trailer_data 12345678901) dv_tlr_def =
     (''DH1'' @ ''DT19'' @ replicate 9 CHR '' '' @ CHR '' '' # replicate 3826 CHR '' '' @ [CHR 0x0A] @
      ''DT11234567890'' @ CHR '' '' # replicate 3826 CHR '' '' @ [CHR 0x0A], Inr 2)"
    by (simp add: write_fw_def open_file_def trailer_data_def dv_tlr_def_def
        consistent_def fw_field_def py_str_def str_nat.simps)
  have c: "consistent_specs dv_tlr_def"
    by (simp add: consistent_specs_def dv_tlr_def_def consistent_def)
  have j: "(1::nat) < length (trailer_data 9 @ trailer_data 12345678901)"
    by (simp add: trailer_data_def)
  have i: "(1::nat) < length dv_tlr_def" by (simp add: dv_tlr_def_def)
  have s: "dv_tlr_def ! 1 = (''Total Record Count'', 10, 4, 13)" by (simp add: dv_tlr_def_def)
  have nf: "\<not> str_in ''Filler'' ''Total Record Count''" by simp
  have r: "((trailer_data 9 @ trailer_data 12345678901) ! 1) ''Total Record Count'' =
     Some (Str ''12345678901'')"
    by (simp add: trailer_data_def py_str_def str_nat.simps)
  from write_fw_field_encoding [OF w c j i s nf r]
  have "take 10 (drop (length (open_file ''DH1'' ModeA) + 1 * (sum_list (widths dv_tlr_def) + 1) +
                  sum_list (take 1 (widths dv_tlr_def)))
     (''DH1'' @ ''DT19'' @ replicate 9 CHR '' '' @ CHR '' '' # replicate 3826 CHR '' '' @ [CHR 0x0A] @
      ''DT11234567890'' @ CHR '' '' # replicate 3826 CHR '' '' @ [CHR 0x0A])) = ''1234567890''"
    by simp
  with w c j i s nf r show ?thesis by simp
qed

text \<open>
  Claim C9. With a consistent specification and no rows \<open>write_fw\<close> returns 0 and leaves
  the opened file as it is; a call with a row and an inconsistent specification gives the
  very same result, so the value 0 does not tell the two apart.
\<close>
theorem write_fw_empty_frame:
  assumes "consistent_specs specs"
  shows "write_fw old m [] specs = (open_file old m, Inr 0) \<and>
         (\<exists>df specs'. df \<noteq> [] \<and> \<not> consistent_specs specs' \<and>
            write_fw old m df specs' = write_fw old m [] specs)"
proof -
  have e: "write_fw old m [] specs = (open_file old m, Inr 0)"
    by (simp add: write_fw_def)
  have "\<not> consistent_specs [(''Record Type'', 3, 1, 5)]"
    by (simp add: consistent_specs_def consistent_def)
  moreover have "write_fw old m [map_of [(''Record Type'', Str ''DD1'')]] [(''Record Type'', 3, 1, 5)] =
      (open_file old m, Inr 0)"
    by (simp add: write_fw_def consistent_def)
  ultimately show ?thesis using e by (metis list.distinct(1))
qed

theorem write_fw_empty_frame_witness:
  "consistent_specs dv_col_def \<and> write_fw ''DH1'' ModeA [] dv_col_def = (''DH1'', Inr 0) \<and>
   write_fw ''DH1'' ModeA [map_of [(''Record Type'', Str ''DD1'')]] [(''Record Type'', 3, 1, 5)] =
     (''DH1'', Inr 0)"
proof -
  have c: "consistent_specs dv_col_def"
    by (simp add: consistent_specs_def dv_col_def_def consistent_def)
  have "write_fw ''DH1'' ModeA [map_of [(''Record Type'', Str ''DD1'')]] [(''Record Type'', 3, 1, 5)] =
     (''DH1'', Inr 0)"
    by (simp add: write_fw_def consistent_def open_file_def)
  with write_fw_empty_frame [OF c, of "''DH1''" ModeA] c show ?thesis
    by (simp add: open_file_def)
qed




section \<open>Properties of the assembled frame\<close>

subsection \<open>The frame as a map over the rows\<close>


lemma steps_ConsE:
  "steps (s # ss) df = Inr out \<Longrightarrow> (\<And>d. s df = Inr d \<Longrightarrow> steps ss d = Inr out \<Longrightarrow> P) \<Longrightarrow> P"
  by (auto split: sum.splits)

lemma set_col_map: "set_col c v d = Inr d' \<Longrightarrow> d' = map (set_col_row c v) d"
  by (auto simp: set_col_def)

lemma loc_isin_map:
  "loc_isin src vals c v d = Inr d' \<Longrightarrow> d' = map (loc_isin_row src vals c v) d"
  by (auto simp: loc_isin_def split: if_splits)

lemma loc_startswith_map:
  "loc_startswith c pre v d = Inr d' \<Longrightarrow> d' = map (loc_startswith_row c pre v) d"
  by (auto simp: loc_startswith_def split: if_splits)

lemma loc_isna_map:
  "loc_isna c v d = Inr d' \<Longrightarrow> d' = map (loc_isna_row c v) d"
  by (auto simp: loc_isna_def split: if_splits)

lemma rename_map: "rename cs d = Inr d' \<Longrightarrow> d' = map (fold rename_col cs) d"
  by (auto simp: rename_def)

lemma add_unused_map: "add_unused fs d = Inr d' \<Longrightarrow> d' = map (fold add_col fs) d"
  by (auto simp: add_unused_def)

lemma fillna_map: "fillna cs d = Inr d' \<Longrightarrow> d' = map (fold fillna_col cs) d"
  by (auto simp: fillna_def split: list.splits)

lemma drop_isna_filter: "drop_isna c d = Inr d' \<Longrightarrow> d' = filter (\<lambda>row. \<not> isna c row) d"
  by (auto simp: drop_isna_def split: if_splits)

lemma sort_values_sort:
  "sort_values c1 c2 d = Inr d' \<Longrightarrow>
     d' = sort_rows c1 c2 d"
  by (auto simp: sort_values_def split: if_splits)

lemmas step_maps = set_col_map loc_isin_map loc_startswith_map loc_isna_map rename_map
  add_unused_map fillna_map drop_isna_filter sort_values_sort

lemma derive_row_comp:
  "derive_row =
     fold fillna_col fill_list \<circ> (fold add_col unused_fields \<circ> (fold rename_col rename_columns \<circ>
     (loc_isin_row ''STOP_REASON'' [''BURS'', ''COLL'', ''STAC''] ''School Financial Block'' ''Y'' \<circ>
     (set_col_row ''School Financial Block'' ''N'' \<circ>
     (loc_isin_row ''RELEASE_INFO'' [''NORL''] ''FERPA Block'' ''Y'' \<circ>
     (set_col_row ''FERPA Block'' ''N'' \<circ>
     (loc_isin_row ''DEGREE'' [''CERTIF''] ''Certificate Type'' ''2'' \<circ>
     (loc_isin_row ''HONORS'' [''SUMMA''] ''Academic Honors'' ''Summa Cum Laude'' \<circ>
     (loc_isin_row ''HONORS'' [''MAGNA''] ''Academic Honors'' ''Magna Cum Laude'' \<circ>
     (loc_isin_row ''HONORS'' [''CUM''] ''Academic Honors'' ''Cum Laude'' \<circ>
     (loc_isin_row ''DEGREE'' [''GCERT''] ''Degree Level Indicator'' ''T'' \<circ>
     (loc_isin_row ''DEGREE'' [''CERTIF''] ''Degree Level Indicator'' ''C'' \<circ>
     (loc_isin_row ''DEGREE'' [''MS'', ''MPS''] ''Degree Level Indicator'' ''M'' \<circ>
     (loc_isin_row ''DEGREE'' [''AS'', ''AAS'', ''AA'', ''AOS''] ''Degree Level Indicator'' ''A'' \<circ>
     (loc_isin_row ''DEGREE'' [''BS'', ''BA'', ''BPS''] ''Degree Level Indicator'' ''B'' \<circ>
      set_col_row ''Record Type'' ''DD1'')))))))))))))))"
  by (rule ext) (simp only: derive_row_def fold_simps comp_apply)

lemma label_row_comp:
  "label_row =
     loc_isna_row ''First Name'' ''NFN'' \<circ>
     (loc_startswith_row ''Student SSN'' ''999'' ''NO SSN'' \<circ>
     (loc_startswith_row ''Student SSN'' ''888'' ''NO SSN'' \<circ>
      loc_startswith_row ''Student SSN'' ''000'' ''NO SSN''))"
  by (rule ext) (simp only: label_row_def fold_simps comp_apply)

lemma create_DV_df_Inr:
  assumes "create_DV_df df = Inr out"
  shows "out = sort_rows ''Student SSN'' ''Date Degree, Credential, or Certificate Awarded''
           (map label_row (filter (\<lambda>row. \<not> isna ''Student SSN'' row) (map derive_row df)))"
  using assms unfolding create_DV_df_def
  apply (elim steps_ConsE)
  apply (drule step_maps)+
  apply (simp only: steps.simps sum.inject)
  apply (simp only: map_map derive_row_comp label_row_comp)
  done

subsection \<open>Columns of a row after each statement\<close>

lemma set_col_row_None [simp]:
  "set_col_row c v r c' = None \<longleftrightarrow> c' \<noteq> c \<and> r c' = None"
  by (simp add: set_col_row_def)

lemma loc_row_None [simp]: "loc_row b c v r c' = None \<longleftrightarrow> c' \<noteq> c \<and> r c' = None"
  by (simp add: loc_row_def split: option.splits)

lemma loc_isin_row_None [simp]:
  "loc_isin_row src vals c v r c' = None \<longleftrightarrow> c' \<noteq> c \<and> r c' = None"
  by (simp add: loc_isin_row_def)

lemma loc_startswith_row_None [simp]:
  "loc_startswith_row c pre v r c' = None \<longleftrightarrow> c' \<noteq> c \<and> r c' = None"
  by (simp add: loc_startswith_row_def)

lemma loc_isna_row_None [simp]:
  "loc_isna_row c v r c' = None \<longleftrightarrow> c' \<noteq> c \<and> r c' = None"
  by (simp add: loc_isna_row_def)

lemma rename_col_other: "c \<noteq> fst p \<Longrightarrow> c \<noteq> snd p \<Longrightarrow> rename_col p r c = r c"
  by (simp add: rename_col_def split: option.splits)

lemma fold_rename_other:
  "c \<notin> fst ` set ps \<Longrightarrow> c \<notin> snd ` set ps \<Longrightarrow> fold rename_col ps r c = r c"
  by (induction ps arbitrary: r) (auto simp: rename_col_other)

lemma fold_rename_new:
  "distinct (map fst ps @ map snd ps) \<Longrightarrow> (old, new) \<in> set ps \<Longrightarrow>
     fold rename_col ps r new = (case r old of None \<Rightarrow> r new | Some x \<Rightarrow> Some x)"
proof (induction ps arbitrary: r)
  case Nil
  then show ?case by simp
next
  case (Cons p ps)
  show ?case
  proof (cases "p = (old, new)")
    case True
    with Cons.prems have "new \<notin> fst ` set ps" "new \<notin> snd ` set ps" by auto
    then have "fold rename_col ps (rename_col p r) new = rename_col p r new"
      by (rule fold_rename_other)
    moreover from True have "rename_col p r new = (case r old of None \<Rightarrow> r new | Some x \<Rightarrow> Some x)"
      by (simp add: rename_col_def split: option.splits)
    ultimately show ?thesis by simp
  next
    case False
    with Cons.prems have mem: "(old, new) \<in> set ps" and d: "distinct (map fst ps @ map snd ps)"
      by auto
    from Cons.prems mem have "old \<noteq> fst p" "old \<noteq> snd p" "new \<noteq> fst p" "new \<noteq> snd p"
      by (auto simp: image_iff)
    with Cons.IH [OF d mem, of "rename_col p r"] show ?thesis
      by (simp add: rename_col_other split: option.splits)
  qed
qed

lemma fold_add_col:
  "fold add_col fs r c =
     (if c \<in> set fs then (case r c of None \<Rightarrow> Some (Str '' '') | Some x \<Rightarrow> Some x) else r c)"
  by (induction fs arbitrary: r) (auto simp: add_col_def split: option.splits)

lemma fold_fillna_col:
  "fold fillna_col cs r c =
     (if c \<in> set cs then (case r c of Some NaN \<Rightarrow> Some (Str '' '') | x \<Rightarrow> x) else r c)"
  by (induction cs arbitrary: r) (auto simp: fillna_col_def split: option.splits cell.splits)

lemma fold_add_col_None [simp]: "fold add_col fs r c = None \<longleftrightarrow> c \<notin> set fs \<and> r c = None"
  by (simp add: fold_add_col split: option.splits)

lemma fold_fillna_col_None [simp]: "fold fillna_col cs r c = None \<longleftrightarrow> r c = None"
  by (simp add: fold_fillna_col split: option.splits cell.splits)

lemma rename_columns_distinct: "distinct (map fst rename_columns @ map snd rename_columns)"
  by (simp add: rename_columns_def)

lemma has_col_map: "has_col c (map f d) = list_all (\<lambda>r. f r c \<noteq> None) d"
  by (simp add: has_col_def list.pred_map comp_def)

lemma set_col_row_apply:
  "set_col_row c v r c' = (if c' = c then Some (Str v) else r c')"
  by (simp add: set_col_row_def)

lemma loc_row_apply:
  "loc_row b c v r c' =
     (if c' = c then (if b then Some (Str v) else (case r c of None \<Rightarrow> Some NaN | Some x \<Rightarrow> Some x))
      else r c')"
  by (simp add: loc_row_def split: option.splits)

lemmas row_apply = set_col_row_apply loc_row_apply loc_isin_row_def loc_startswith_row_def
  loc_isna_row_def fold_add_col fold_fillna_col

lemma rename_columns_names:
  "fst ` set rename_columns = {''GOVERNMENT_ID'', ''FIRST_NAME'', ''MIDDLE_NAME'', ''LAST_NAME'',
     ''SUFFIX'', ''BIRTH_DATE'', ''PEOPLE_CODE_ID'', ''GRADUATION_DATE'', ''LONG_DESC'',
     ''FORMAL_TITLE'', ''START_DATE'', ''END_DATE'', ''CipCode''}"
  "snd ` set rename_columns = {''Student SSN'', ''First Name'', ''Middle Name'', ''Last Name'',
     ''Name Suffix'', ''Date of Birth'', ''College Student ID'',
     ''Date Degree, Credential, or Certificate Awarded'',
     ''Degree, Certificate, or Credential Title'', ''Major Course of Study 1'',
     ''Attendance From Date'', ''Attendance To Date'', ''NCES CIP Code for Major 1''}"
  by (simp_all add: rename_columns_def)

lemma derive_row_dli:
  assumes "r ''DEGREE'' = Some (Str d)" and "r ''Degree Level Indicator'' = None"
  shows "derive_row r ''Degree Level Indicator'' =
     Some (if d = ''GCERT'' then Str ''T'' else if d = ''CERTIF'' then Str ''C''
           else if d \<in> {''MS'', ''MPS''} then Str ''M''
           else if d \<in> {''AS'', ''AAS'', ''AA'', ''AOS''} then Str ''A''
           else if d \<in> {''BS'', ''BA'', ''BPS''} then Str ''B'' else NaN)"
proof -
  have 1: "fold fillna_col fill_list x ''Degree Level Indicator'' = x ''Degree Level Indicator''" for x
    by (subst fold_fillna_col) (simp add: fill_list_def)
  have 2: "fold add_col unused_fields x ''Degree Level Indicator'' = x ''Degree Level Indicator''" for x
    by (subst fold_add_col) (simp add: unused_fields_def)
  have 3: "fold rename_col rename_columns x ''Degree Level Indicator'' = x ''Degree Level Indicator''" for x
    by (rule fold_rename_other) (simp_all add: rename_columns_names)
  show ?thesis
    unfolding derive_row_comp comp_apply 1 2 3
    using assms by (simp add: set_col_row_apply loc_row_apply loc_isin_row_def isin_def)
qed

subsection \<open>When the assembly returns\<close>

lemma steps_Cons_ok: "s df = Inr d \<Longrightarrow> steps ss d = r \<Longrightarrow> steps (s # ss) df = r"
  by simp

lemma set_col_ok: "set_col c v d = Inr (map (set_col_row c v) d)"
  by (simp add: set_col_def)

lemma loc_isin_ok:
  "has_col src d \<Longrightarrow> d \<noteq> [] \<Longrightarrow>
     loc_isin src vals c v d = Inr (map (loc_isin_row src vals c v) d)"
  by (simp add: loc_isin_def)

lemma rename_ok: "rename cs d = Inr (map (fold rename_col cs) d)"
  by (simp add: rename_def)

lemma add_unused_ok: "add_unused fs d = Inr (map (fold add_col fs) d)"
  by (simp add: add_unused_def)

lemma fillna_ok:
  "list_all (\<lambda>c. has_col c d) cs \<Longrightarrow> fillna cs d = Inr (map (fold fillna_col cs) d)"
proof -
  assume "list_all (\<lambda>c. has_col c d) cs"
  then have "filter (\<lambda>c. \<not> has_col c d) cs = []"
    by (simp add: list_all_iff filter_empty_conv)
  then show ?thesis by (simp add: fillna_def)
qed

lemma drop_isna_ok: "has_col c d \<Longrightarrow> drop_isna c d = Inr (filter (\<lambda>row. \<not> isna c row) d)"
  by (simp add: drop_isna_def)

lemma loc_startswith_ok:
  "has_col c d \<Longrightarrow> loc_startswith c pre v d = Inr (map (loc_startswith_row c pre v) d)"
  by (simp add: loc_startswith_def)

lemma loc_isna_ok: "has_col c d \<Longrightarrow> loc_isna c v d = Inr (map (loc_isna_row c v) d)"
  by (simp add: loc_isna_def)

lemma sort_values_ok:
  "has_col c1 d \<Longrightarrow> has_col c2 d \<Longrightarrow> sort_values c1 c2 d = Inr (sort_rows c1 c2 d)"
  by (simp add: sort_values_def)

lemma has_col_filter: "has_col c d \<Longrightarrow> has_col c (filter P d)"
  by (simp add: has_col_def list_all_iff)

lemma fold_rename_other_None:
  "c \<notin> fst ` set ps \<Longrightarrow> c \<notin> snd ` set ps \<Longrightarrow> fold rename_col ps r c = None \<longleftrightarrow> r c = None"
  by (simp add: fold_rename_other)

lemma rename_columns_new_None:
  "(old, new) \<in> set rename_columns \<Longrightarrow>
     fold rename_col rename_columns r new = None \<longleftrightarrow> r old = None \<and> r new = None"
  by (simp add: fold_rename_new [OF rename_columns_distinct] split: option.splits)

lemma rename_pairs:
  "(''GOVERNMENT_ID'', ''Student SSN'') \<in> set rename_columns"
  "(''FIRST_NAME'', ''First Name'') \<in> set rename_columns"
  "(''GRADUATION_DATE'', ''Date Degree, Credential, or Certificate Awarded'') \<in> set rename_columns"
  "(''START_DATE'', ''Attendance From Date'') \<in> set rename_columns"
  "(''END_DATE'', ''Attendance To Date'') \<in> set rename_columns"
  by (simp_all add: rename_columns_def)

lemma unused_mem:
  "''Minor Course of Study 1'' \<in> set unused_fields"
  "''Minor Course of Study 2'' \<in> set unused_fields"
  "''Minor Course of Study 3'' \<in> set unused_fields"
  "''Minor Course of Study 4'' \<in> set unused_fields"
  "''Certificate Type'' \<in> set unused_fields"
  "''NCES CIP Code for Major 1'' \<in> set unused_fields"
  "''Academic Honors'' \<notin> set unused_fields"
  "''Attendance From Date'' \<notin> set unused_fields"
  "''Attendance To Date'' \<notin> set unused_fields"
  "''Student SSN'' \<notin> set unused_fields"
  "''First Name'' \<notin> set unused_fields"
  "''Date Degree, Credential, or Certificate Awarded'' \<notin> set unused_fields"
  "''Degree Level Indicator'' \<notin> set unused_fields"
  by (simp_all add: unused_fields_def)

lemma merged_cols_row:
  assumes "list_all (\<lambda>c. has_col c df) merged_cols" and "r \<in> set df"
  shows "r ''DEGREE'' \<noteq> None" "r ''HONORS'' \<noteq> None" "r ''RELEASE_INFO'' \<noteq> None"
    "r ''STOP_REASON'' \<noteq> None" "r ''GOVERNMENT_ID'' \<noteq> None" "r ''FIRST_NAME'' \<noteq> None"
    "r ''GRADUATION_DATE'' \<noteq> None" "r ''START_DATE'' \<noteq> None" "r ''END_DATE'' \<noteq> None"
  using assms by (simp_all add: merged_cols_def has_col_def list_all_iff)

lemma derive_steps_ok:
  assumes "list_all (\<lambda>c. has_col c df) merged_cols" and ne: "df \<noteq> []"
  shows "steps (
     set_col ''Record Type'' ''DD1'' #
     loc_isin ''DEGREE'' [''BS'', ''BA'', ''BPS''] ''Degree Level Indicator'' ''B'' #
     loc_isin ''DEGREE'' [''AS'', ''AAS'', ''AA'', ''AOS''] ''Degree Level Indicator'' ''A'' #
     loc_isin ''DEGREE'' [''MS'', ''MPS''] ''Degree Level Indicator'' ''M'' #
     loc_isin ''DEGREE'' [''CERTIF''] ''Degree Level Indicator'' ''C'' #
     loc_isin ''DEGREE'' [''GCERT''] ''Degree Level Indicator'' ''T'' #
     loc_isin ''HONORS'' [''CUM''] ''Academic Honors'' ''Cum Laude'' #
     loc_isin ''HONORS'' [''MAGNA''] ''Academic Honors'' ''Magna Cum Laude'' #
     loc_isin ''HONORS'' [''SUMMA''] ''Academic Honors'' ''Summa Cum Laude'' #
     loc_isin ''DEGREE'' [''CERTIF''] ''Certificate Type'' ''2'' #
     set_col ''FERPA Block'' ''N'' #
     loc_isin ''RELEASE_INFO'' [''NORL''] ''FERPA Block'' ''Y'' #
     set_col ''School Financial Block'' ''N'' #
     loc_isin ''STOP_REASON'' [''BURS'', ''COLL'', ''STAC''] ''School Financial Block'' ''Y'' #
     rename rename_columns #
     add_unused unused_fields #
fillna fill_list # rest) df = steps rest (map derive_row df)"
proof -
  note cols = merged_cols_row [OF assms(1)]
  note hc = has_col_map list.pred_map comp_def list_all_iff
  show ?thesis
    apply (rule steps_Cons_ok, rule set_col_ok)
    apply (rule steps_Cons_ok, rule loc_isin_ok, simp add: hc cols del: not_None_eq, simp add: ne)+
    apply (rule steps_Cons_ok, rule set_col_ok)
    apply (rule steps_Cons_ok, rule loc_isin_ok, simp add: hc cols del: not_None_eq, simp add: ne)
    apply (rule steps_Cons_ok, rule set_col_ok)
    apply (rule steps_Cons_ok, rule loc_isin_ok, simp add: hc cols del: not_None_eq, simp add: ne)
    apply (rule steps_Cons_ok, rule rename_ok)
    apply (rule steps_Cons_ok, rule add_unused_ok)
    apply (rule steps_Cons_ok, rule fillna_ok)
     apply (simp add: hc del: not_None_eq)
     apply (simp add: fill_list_def unused_mem fold_rename_other_None
        rename_pairs [THEN rename_columns_new_None] rename_columns_names cols del: not_None_eq)
    apply (simp only: map_map derive_row_comp)
    done
qed

lemma derive_row_renamed:
  assumes "(old, new) \<in> set rename_columns" and "r old = Some x"
    and "new \<notin> set unused_fields" and "new \<notin> set fill_list"
    and "old \<notin> {''Record Type'', ''Degree Level Indicator'', ''Academic Honors'',
      ''Certificate Type'', ''FERPA Block'', ''School Financial Block''}"
  shows "derive_row r new = Some x"
proof -
  have 1: "fold fillna_col fill_list y new = y new" for y
    using assms(4) by (simp add: fold_fillna_col)
  have 2: "fold add_col unused_fields y new = y new" for y
    using assms(3) by (simp add: fold_add_col)
  have 3: "fold rename_col rename_columns y new = Some x" if "y old = Some x" for y
    using that by (simp add: fold_rename_new [OF rename_columns_distinct assms(1)])
  show ?thesis
    unfolding derive_row_comp comp_apply 1 2
    using assms(2,5) by (intro 3) (simp add: set_col_row_apply loc_row_apply loc_isin_row_def)
qed

lemma fill_list_mem:
  "''Student SSN'' \<notin> set fill_list" "''First Name'' \<notin> set fill_list"
  "''Date Degree, Credential, or Certificate Awarded'' \<notin> set fill_list"
  "''Degree Level Indicator'' \<notin> set fill_list"
  by (simp_all add: fill_list_def)

lemma derive_row_ssn: "r ''GOVERNMENT_ID'' = Some x \<Longrightarrow> derive_row r ''Student SSN'' = Some x"
  by (rule derive_row_renamed [OF rename_pairs(1)]) (simp_all add: unused_mem fill_list_mem)

lemma derive_row_first_name: "r ''FIRST_NAME'' = Some x \<Longrightarrow> derive_row r ''First Name'' = Some x"
  by (rule derive_row_renamed [OF rename_pairs(2)]) (simp_all add: unused_mem fill_list_mem)

lemma derive_row_date:
  "r ''GRADUATION_DATE'' = Some x \<Longrightarrow>
     derive_row r ''Date Degree, Credential, or Certificate Awarded'' = Some x"
  by (rule derive_row_renamed [OF rename_pairs(3)]) (simp_all add: unused_mem fill_list_mem)

lemma label_row_other:
  "c \<noteq> ''Student SSN'' \<Longrightarrow> c \<noteq> ''First Name'' \<Longrightarrow> label_row r c = r c"
  by (simp add: label_row_comp loc_startswith_row_def loc_isna_row_def loc_row_apply)

lemma label_row_ssn:
  "r ''Student SSN'' = Some (Str s) \<Longrightarrow>
     label_row r ''Student SSN'' =
       Some (Str (if prefix ''000'' s \<or> prefix ''888'' s \<or> prefix ''999'' s then ''NO SSN'' else s))"
  by (simp add: label_row_comp loc_startswith_row_def loc_isna_row_def loc_row_apply startswith_def)

lemma create_DV_df_ok:
  assumes "list_all (\<lambda>c. has_col c df) merged_cols" and "df \<noteq> []"
  shows "create_DV_df df =
     Inr (sort_rows ''Student SSN'' ''Date Degree, Credential, or Certificate Awarded''
       (map label_row (filter (\<lambda>row. \<not> isna ''Student SSN'' row) (map derive_row df))))"
proof -
  note cols = merged_cols_row [OF assms(1)]
  have ssn: "has_col ''Student SSN'' (map derive_row df)"
    using cols(5) derive_row_ssn by (fastforce simp: has_col_map list_all_iff)
  have first: "has_col ''First Name'' (map derive_row df)"
    using cols(6) derive_row_first_name by (fastforce simp: has_col_map list_all_iff)
  have date: "has_col ''Date Degree, Credential, or Certificate Awarded'' (map derive_row df)"
    using cols(7) derive_row_date by (fastforce simp: has_col_map list_all_iff)
  note hc = has_col_map list.pred_map comp_def list_all_iff
  note kept = ssn [THEN has_col_filter] first [THEN has_col_filter] date [THEN has_col_filter]
  show ?thesis
    unfolding create_DV_df_def derive_steps_ok [OF assms]
    apply (rule steps_Cons_ok, rule drop_isna_ok, rule ssn)
    apply (rule steps_Cons_ok, rule loc_startswith_ok, rule kept(1))
    apply (rule steps_Cons_ok, rule loc_startswith_ok, simp add: hc del: not_None_eq)
    apply (rule steps_Cons_ok, rule loc_startswith_ok, simp add: hc del: not_None_eq)
    apply (rule steps_Cons_ok, rule loc_isna_ok)
     apply (simp add: hc kept(2) [unfolded has_col_def list_all_iff] del: not_None_eq)
    apply (rule steps_Cons_ok, rule sort_values_ok)
      apply (simp add: hc del: not_None_eq)
     apply (simp add: hc kept(3) [unfolded has_col_def list_all_iff] del: not_None_eq)
    apply (simp only: steps.simps map_map label_row_comp)
    done
qed

text \<open>A merged frame without rows: line 341 raises.\<close>

lemma create_DV_df_empty: "create_DV_df [] = Inl ValueError"
  by (simp add: create_DV_df_def set_col_def loc_isin_def has_col_def)

subsection \<open>The assembled records\<close>

lemma merged_row_cols: "list_all (\<lambda>c. has_col c (map (\<lambda>(p, d, s, h). merged_row p d s h) xs)) merged_cols"
  by (induction xs) (auto simp: merged_cols_def has_col_def merged_row_def)

lemma merged_row_apply:
  "merged_row p d s h ''DEGREE'' = Some (Str d)"
  "merged_row p d s h ''Degree Level Indicator'' = None"
  "merged_row p d s h ''GOVERNMENT_ID'' = Some s"
  "merged_row p d s h ''PEOPLE_CODE_ID'' = Some (Str p)"
  by (simp_all add: merged_row_def)

lemma rename_pair_id: "(''PEOPLE_CODE_ID'', ''College Student ID'') \<in> set rename_columns"
  by (simp add: rename_columns_def)

lemma derive_row_id:
  "r ''PEOPLE_CODE_ID'' = Some x \<Longrightarrow> derive_row r ''College Student ID'' = Some x"
  by (rule derive_row_renamed [OF rename_pair_id]) (simp_all add: unused_fields_def fill_list_def)

lemma set_sort_rows: "set (sort_rows c1 c2 df) = set df"
  by (simp add: sort_rows_def)

lemma length_sort_rows: "length (sort_rows c1 c2 df) = length df"
  by (simp add: sort_rows_def)

lemma assembled_dli:
  assumes "r ''DEGREE'' = Some (Str d)" and "r ''Degree Level Indicator'' = None"
  shows "label_row (derive_row r) ''Degree Level Indicator'' =
     Some (if d = ''GCERT'' then Str ''T'' else if d = ''CERTIF'' then Str ''C''
           else if d \<in> {''MS'', ''MPS''} then Str ''M''
           else if d \<in> {''AS'', ''AAS'', ''AA'', ''AOS''} then Str ''A''
           else if d \<in> {''BS'', ''BA'', ''BPS''} then Str ''B'' else NaN)"
  using derive_row_dli [OF assms] by (simp add: label_row_other)

lemma isna_derive_row:
  "r ''GOVERNMENT_ID'' \<noteq> None \<Longrightarrow> isna ''Student SSN'' (derive_row r) = (\<not> has_str r ''GOVERNMENT_ID'')"
  by (auto simp: isna_def has_str_def derive_row_ssn split: option.splits cell.splits)


lemma assembled_from:
  assumes "create_DV_df df = Inr out" and "r \<in> set out"
  shows "\<exists>r0\<in>set df. r = label_row (derive_row r0) \<and> \<not> isna ''Student SSN'' (derive_row r0)"
  using assms(2) unfolding create_DV_df_Inr [OF assms(1)] set_sort_rows by auto

lemma assembled_ssn:
  assumes "r ''GOVERNMENT_ID'' = Some (Str s)"
  shows "label_row (derive_row r) ''Student SSN'' =
     Some (Str (if prefix ''000'' s \<or> prefix ''888'' s \<or> prefix ''999'' s then ''NO SSN'' else s))"
  using derive_row_ssn [of r "Str s"] assms by (simp add: label_row_ssn)


subsection \<open>The data schema and nulls\<close>






subsection \<open>Decimal strings, header and trailer\<close>













section \<open>Properties of the minors\<close>
























section \<open>Claims about the assembled frame\<close>

text \<open>
  The part of claim C4 that holds: for a degree code in one of the five lists the
  indicator of the assembled record is the letter of the list.
\<close>

lemma degree_level_indicator_mapped:
  assumes "r ''DEGREE'' = Some (Str d)" and "r ''Degree Level Indicator'' = None"
  shows "label_row (derive_row r) ''Degree Level Indicator'' =
     (if d \<in> {''BS'', ''BA'', ''BPS''} then Some (Str ''B'')
      else if d \<in> {''AS'', ''AAS'', ''AA'', ''AOS''} then Some (Str ''A'')
      else if d \<in> {''MS'', ''MPS''} then Some (Str ''M'')
      else if d = ''CERTIF'' then Some (Str ''C'')
      else if d = ''GCERT'' then Some (Str ''T'')
      else Some NaN)"
  using assembled_dli [OF assms] by auto

text \<open>
  Claim C4, at an input where the code departs from it. Two degrees, one with code \<open>BS\<close>
  and one with a code outside the five lists: the assembly returns both records, the first
  with \<open>Degree Level Indicator\<close> \<open>B\<close>, the second with a null there, not a blank. The
  column is neither in \<open>unused_fields\<close> nor in \<open>fill_list\<close>, so nothing fills it.
\<close>
theorem degree_level_unmapped_null:
  "\<exists>out. create_DV_df [merged_row ''P1'' ''BS'' (Str ''123456789'') (Str ''CUM''),
                        merged_row ''P2'' ''BBA'' (Str ''223456789'') NaN] = Inr out \<and>
     (\<lambda>r. (r ''College Student ID'', r ''Degree Level Indicator'')) ` set out =
       {(Some (Str ''P1''), Some (Str ''B'')), (Some (Str ''P2''), Some NaN)}"
proof -
  let ?df = "map (\<lambda>(p, d, s, h). merged_row p d s h)
     [(''P1'', ''BS'', Str ''123456789'', Str ''CUM''), (''P2'', ''BBA'', Str ''223456789'', NaN)]"
  have "create_DV_df ?df =
     Inr (sort_rows ''Student SSN'' ''Date Degree, Credential, or Certificate Awarded''
       (map label_row (filter (\<lambda>row. \<not> isna ''Student SSN'' row) (map derive_row ?df))))"
    by (rule create_DV_df_ok [OF merged_row_cols]) simp
  then show ?thesis
    by (simp add: set_sort_rows isna_derive_row merged_row_apply has_str_def
        label_row_other derive_row_id derive_row_dli)
qed

text \<open>
  Claim C5. The merged frame has the column \<open>GOVERNMENT_ID\<close>. When the assembly returns,
  its rows are the rows of the merged frame that hold a government ID, each derived and
  labelled, in sorted order: a row with a null there is left out. In a row that stays, the
  \<open>Student SSN\<close> is \<open>NO SSN\<close> when the ID starts with 000, 888 or 999, and the ID itself
  otherwise.
\<close>
theorem ssn_missing_excluded_prefix_labelled:
  assumes "has_col ''GOVERNMENT_ID'' df" and "create_DV_df df = Inr out"
  shows "out = sort_rows ''Student SSN'' ''Date Degree, Credential, or Certificate Awarded''
           (map (\<lambda>r. label_row (derive_row r)) (filter (\<lambda>r. has_str r ''GOVERNMENT_ID'') df)) \<and>
         (\<forall>r s. r ''GOVERNMENT_ID'' = Some (Str s) \<longrightarrow>
            label_row (derive_row r) ''Student SSN'' =
              Some (Str (if prefix ''000'' s \<or> prefix ''888'' s \<or> prefix ''999'' s
                         then ''NO SSN'' else s)))"
proof -
  have "filter (\<lambda>row. \<not> isna ''Student SSN'' row) (map derive_row df) =
        map derive_row (filter (\<lambda>r. has_str r ''GOVERNMENT_ID'') df)"
    using assms(1)
    by (induction df) (simp_all add: has_col_def isna_derive_row)
  with create_DV_df_Inr [OF assms(2)] assembled_ssn show ?thesis
    by (simp add: comp_def)
qed

theorem ssn_missing_excluded_prefix_labelled_witness:
  "has_col ''GOVERNMENT_ID''
     [merged_row ''P1'' ''BS'' (Str ''123456789'') (Str ''CUM''),
      merged_row ''P2'' ''AS'' (Str ''000456789'') NaN,
      merged_row ''P3'' ''MS'' NaN NaN] \<and>
   (\<exists>out. create_DV_df
     [merged_row ''P1'' ''BS'' (Str ''123456789'') (Str ''CUM''),
      merged_row ''P2'' ''AS'' (Str ''000456789'') NaN,
      merged_row ''P3'' ''MS'' NaN NaN] = Inr out \<and>
     length out = 2 \<and>
     (\<lambda>r. (r ''College Student ID'', r ''Student SSN'')) ` set out =
       {(Some (Str ''P1''), Some (Str ''123456789'')), (Some (Str ''P2''), Some (Str ''NO SSN''))})"
proof -
  let ?df = "map (\<lambda>(p, d, s, h). merged_row p d s h)
     [(''P1'', ''BS'', Str ''123456789'', Str ''CUM''), (''P2'', ''AS'', Str ''000456789'', NaN),
      (''P3'', ''MS'', NaN, NaN)]"
  have h: "has_col ''GOVERNMENT_ID'' ?df"
    by (simp add: has_col_def merged_row_def)
  obtain out where out: "create_DV_df ?df = Inr out"
    using create_DV_df_ok [OF merged_row_cols, of "[(''P1'', ''BS'', Str ''123456789'', Str ''CUM''),
      (''P2'', ''AS'', Str ''000456789'', NaN), (''P3'', ''MS'', NaN, NaN)]"] by simp
  from ssn_missing_excluded_prefix_labelled [OF h out]
  have "out = sort_rows ''Student SSN'' ''Date Degree, Credential, or Certificate Awarded''
           (map (\<lambda>r. label_row (derive_row r)) (filter (\<lambda>r. has_str r ''GOVERNMENT_ID'') ?df))"
    by blast
  then have "length out = 2 \<and>
     (\<lambda>r. (r ''College Student ID'', r ''Student SSN'')) ` set out =
       {(Some (Str ''P1''), Some (Str ''123456789'')), (Some (Str ''P2''), Some (Str ''NO SSN''))}"
    by (simp add: set_sort_rows length_sort_rows merged_row_apply has_str_def
        label_row_other derive_row_id assembled_ssn)
  with h out show ?thesis by simp
qed




section \<open>Claim about the trailer\<close>



section \<open>Claim about the minors\<close>




end
